theory Spec2Isabelle
  imports Complex_Main
begin

section \<open>Experimental feature toggles (settings panel)\<close>

text \<open>
  The settings panel stores each feature flag as a string-valued synced preference.
  Preferences and the browser's local storage are key-value stores from strings to
  strings; a missing key is \<open>None\<close> (\<open>localStorage.getItem\<close> returns \<open>null\<close>).
\<close>

type_synonym prefs = "string \<rightharpoonup> string"

type_synonym localStorage = "string \<rightharpoonup> string"

text \<open>JavaScript's \<open>String(b)\<close> on a boolean.\<close>

definition js_String :: "bool \<Rightarrow> string" where
  "js_String b = (if b then ''true'' else ''false'')"

text \<open>
  Modelled from the spec: the hook \<open>useSyncedPref\<close> is imported by the source but its
  code is not part of it. The spec describes the preference as "a trivial key-value
  write" where "the stored value reflects the last user toggle": the setter returned by
  \<open>useSyncedPref key\<close> stores its argument under \<open>key\<close>.
\<close>

definition setSyncedPref :: "string \<Rightarrow> string \<Rightarrow> prefs \<Rightarrow> prefs" where
  "setSyncedPref k v p = p(k \<mapsto> v)"

text \<open>The template literal \<open>`flags.${flagName}`\<close>.\<close>

definition flagPrefKey :: "string \<Rightarrow> string" where
  "flagPrefKey flagName = ''flags.'' @ flagName"

text \<open>
  The props of \<open>FeatureToggle\<close>. \<open>disableToggle\<close> is optional and defaults to
  \<open>false\<close>; \<open>feedbackLink\<close> and \<open>error\<close> are optional; \<open>children\<close> is the label.
\<close>

record FeatureToggleProps =
  flag :: string
  disableToggle :: "bool option"
  feedbackLink :: "string option"
  error :: "string option"
  children :: string

text \<open>
  What \<open>FeatureToggle\<close> renders: a checkbox (\<open>checked\<close>, \<open>disabled\<close>), the label,
  the feedback link when one is given, and the error text when the toggle is disabled.
\<close>

record FeatureToggleView =
  view_flag :: string
  checked :: bool
  disabled :: bool
  label :: string
  link :: "string option"
  errorText :: "string option option"

text \<open>
  The checkbox's \<open>onChange\<close> handler: \<open>setFlagPref(String(!enabled))\<close>, where
  \<open>setFlagPref\<close> is the setter of the preference \<open>flags.<flagName>\<close> and \<open>enabled\<close> is
  the value the component was rendered with.
\<close>

definition FeatureToggle_onChange :: "string \<Rightarrow> bool \<Rightarrow> prefs \<Rightarrow> prefs" where
  "FeatureToggle_onChange flagName enabled p =
     setSyncedPref (flagPrefKey flagName) (js_String (\<not> enabled)) p"

text \<open>
  The hook \<open>useFeatureFlag\<close> is not part of the source; it is the parameter
  \<open>useFeatureFlag\<close> below, a function from the flag's name and the current preferences
  to the flag's boolean state.
\<close>

definition FeatureToggle ::
  "(string \<Rightarrow> prefs \<Rightarrow> bool) \<Rightarrow> FeatureToggleProps \<Rightarrow> prefs \<Rightarrow> FeatureToggleView" where
  "FeatureToggle useFeatureFlag props p =
     (let flagName = flag props;
          disableToggle = (case disableToggle props of None \<Rightarrow> False | Some d \<Rightarrow> d);
          enabled = useFeatureFlag flagName p
      in \<lparr> view_flag = flagName,
           checked = enabled,
           disabled = disableToggle,
           label = children props,
           link = (case feedbackLink props of
                     None \<Rightarrow> None
                   | Some l \<Rightarrow> (if l = [] then None else Some l)),
           errorText = (if disableToggle then Some (error props) else None) \<rparr>)"

text \<open>The component state of \<open>ExperimentalFeatures\<close>: one \<open>useState(false)\<close>.\<close>

record ExperimentalFeaturesState =
  expanded :: bool

definition ExperimentalFeatures_init :: ExperimentalFeaturesState where
  "ExperimentalFeatures_init = \<lparr> expanded = False \<rparr>"

text \<open>The \<open>primaryAction\<close> of the rendered setting: the link, or the toggles.\<close>

datatype primaryAction =
    ShowLink
  | Toggles "FeatureToggleView list"

definition showGoalTemplatesUI ::
  "(string \<Rightarrow> prefs \<Rightarrow> bool) \<Rightarrow> prefs \<Rightarrow> localStorage \<Rightarrow> bool" where
  "showGoalTemplatesUI useFeatureFlag p ls =
     (let goalTemplatesEnabled = useFeatureFlag ''goalTemplatesEnabled'' p;
          goalTemplatesUIEnabled = useFeatureFlag ''goalTemplatesUIEnabled'' p
      in goalTemplatesUIEnabled \<or>
         (goalTemplatesEnabled \<and> ls ''devEnableGoalTemplatesUI'' = Some ''true''))"

definition ExperimentalFeatures ::
  "(string \<Rightarrow> prefs \<Rightarrow> bool) \<Rightarrow> ExperimentalFeaturesState \<Rightarrow> prefs \<Rightarrow> localStorage
     \<Rightarrow> primaryAction" where
  "ExperimentalFeatures useFeatureFlag st p ls =
     (if expanded st then
        Toggles
          ([FeatureToggle useFeatureFlag
              \<lparr> flag = ''goalTemplatesEnabled'', disableToggle = None, feedbackLink = None,
                error = None, children = ''Goal templates'' \<rparr> p]
           @ (if showGoalTemplatesUI useFeatureFlag p ls then
                [FeatureToggle useFeatureFlag
                   \<lparr> flag = ''goalTemplatesUIEnabled'', disableToggle = None,
                     feedbackLink = None, error = None,
                     children = ''Subfeature: Budget automations UI'' \<rparr> p]
              else [])
           @ [FeatureToggle useFeatureFlag
                \<lparr> flag = ''actionTemplating'', disableToggle = None,
                  feedbackLink = Some ''https://github.com/actualbudget/actual/issues/3606'',
                  error = None, children = ''Rule action templating'' \<rparr> p,
              FeatureToggle useFeatureFlag
                \<lparr> flag = ''pluggyAiBankSync'', disableToggle = None,
                  feedbackLink = Some ''https://github.com/actualbudget/actual/pull/4049'',
                  error = None,
                  children = ''Pluggy.ai Bank Sync (Brazilian banks only)'' \<rparr> p])
      else ShowLink)"

text \<open>
  The events the rendered panel offers: a click on the link (\<open>setExpanded(true)\<close>) and a
  change of the checkbox of a flag. An event whose control is not on screen (the link
  while expanded, a checkbox while collapsed, a checkbox that is not rendered or is
  disabled) cannot fire and leaves everything as it is.
\<close>

datatype panelEvent =
    LinkClick
  | CheckboxChange string

fun findToggle :: "string \<Rightarrow> FeatureToggleView list \<Rightarrow> FeatureToggleView option" where
  "findToggle f [] = None"
| "findToggle f (v # vs) = (if view_flag v = f then Some v else findToggle f vs)"

definition panelStep ::
  "(string \<Rightarrow> prefs \<Rightarrow> bool) \<Rightarrow> localStorage \<Rightarrow> panelEvent
     \<Rightarrow> ExperimentalFeaturesState \<times> prefs \<Rightarrow> ExperimentalFeaturesState \<times> prefs" where
  "panelStep useFeatureFlag ls ev sp =
     (case sp of (st, p) \<Rightarrow>
        (case ExperimentalFeatures useFeatureFlag st p ls of
           ShowLink \<Rightarrow>
             (case ev of
                LinkClick \<Rightarrow> (st\<lparr>expanded := True\<rparr>, p)
              | CheckboxChange f \<Rightarrow> (st, p))
         | Toggles vs \<Rightarrow>
             (case ev of
                LinkClick \<Rightarrow> (st, p)
              | CheckboxChange f \<Rightarrow>
                  (case findToggle f vs of
                     None \<Rightarrow> (st, p)
                   | Some v \<Rightarrow>
                       (if disabled v then (st, p)
                        else (st, FeatureToggle_onChange (view_flag v) (checked v) p))))))"

fun panelRun ::
  "(string \<Rightarrow> prefs \<Rightarrow> bool) \<Rightarrow> localStorage \<Rightarrow> panelEvent list
     \<Rightarrow> ExperimentalFeaturesState \<times> prefs \<Rightarrow> ExperimentalFeaturesState \<times> prefs" where
  "panelRun useFeatureFlag ls [] sp = sp"
| "panelRun useFeatureFlag ls (ev # evs) sp =
     panelRun useFeatureFlag ls evs (panelStep useFeatureFlag ls ev sp)"

definition toggles :: "primaryAction \<Rightarrow> FeatureToggleView list" where
  "toggles a = (case a of ShowLink \<Rightarrow> [] | Toggles vs \<Rightarrow> vs)"

section \<open>The text input component\<close>

subsection \<open>Browser detection\<close>

text \<open>
  A thrown JavaScript value, by name. \<open>navigator\<close> is \<open>None\<close> when
  \<open>typeof navigator === 'undefined'\<close>; reading its \<open>userAgent\<close> either raises or yields
  a string, or \<open>undefined\<close> (\<open>None\<close>). User-agent strings are ASCII.
\<close>

datatype exn = Thrown string

record navigator =
  userAgent :: "exn + string option"

definition toLowerChar :: "char \<Rightarrow> char" where
  "toLowerChar c =
     (let n = (of_char c :: nat) in if 65 \<le> n \<and> n \<le> 90 then char_of (n + 32) else c)"

definition toLowerCase :: "string \<Rightarrow> string" where
  "toLowerCase s = map toLowerChar s"

fun js_includes :: "string \<Rightarrow> string \<Rightarrow> bool" where
  "js_includes [] t = (t = [])"
| "js_includes (c # cs) t = (take (length t) (c # cs) = t \<or> js_includes cs t)"

text \<open>
  The module-level constant \<open>isFirefoxBrowser\<close>, computed once from \<open>navigator\<close>. The
  \<open>try\<close> block covers the read of \<open>navigator.userAgent\<close>; its \<open>catch\<close> returns
  \<open>false\<close>. \<open>userAgent || ''\<close> replaces a missing or empty value by the empty string.
\<close>

definition isFirefoxBrowser :: "navigator option \<Rightarrow> bool" where
  "isFirefoxBrowser nav =
     (case nav of
        None \<Rightarrow> False
      | Some n \<Rightarrow>
          (case userAgent n of
             Inl e \<Rightarrow> False
           | Inr ua \<Rightarrow>
               (let userAgent = (case ua of None \<Rightarrow> []
                                 | Some s \<Rightarrow> (if s = [] then [] else s))
                in js_includes (toLowerCase userAgent) ''firefox'')))"

subsection \<open>The cursor position computed from a click\<close>

text \<open>
  JavaScript numbers are doubles. \<open>clientX\<close> and the rectangle's \<open>left\<close> are finite
  doubles, \<open>scrollWidth\<close> and \<open>clientWidth\<close> are integers. An arithmetic result is the
  exact result rounded to a double: the rounding is the parameter \<open>fl\<close> (the identity
  for exact arithmetic). \<open>Math.max\<close> and \<open>Math.min\<close> are exact. The only operation
  here that can produce \<open>NaN\<close> is the division \<open>0 / 0\<close>, when \<open>clientWidth\<close> is
  zero; \<open>NaN\<close> is \<open>None\<close>, and \<open>NaN * n\<close> and \<open>Math.round(NaN)\<close> are \<open>NaN\<close>.
  \<open>Math.round\<close> rounds to the nearest integer, a tie towards plus infinity, which is
  \<^const>\<open>round\<close>.
\<close>

definition relativeX :: "real \<Rightarrow> int \<Rightarrow> real" where
  "relativeX x containerWidth = max 0 (min x (real_of_int containerWidth))"

definition textRatio :: "(real \<Rightarrow> real) \<Rightarrow> real \<Rightarrow> int \<Rightarrow> int \<Rightarrow> real option" where
  "textRatio fl x textWidth containerWidth =
     (if textWidth > 0 then
        (if containerWidth = 0 then None
         else Some (fl (relativeX x containerWidth / real_of_int containerWidth)))
      else Some 0)"

definition cursorPos :: "(real \<Rightarrow> real) \<Rightarrow> real \<Rightarrow> int \<Rightarrow> int \<Rightarrow> string \<Rightarrow> int option" where
  "cursorPos fl x textWidth containerWidth v =
     (case textRatio fl x textWidth containerWidth of
        None \<Rightarrow> None
      | Some r \<Rightarrow> Some (round (fl (r * real (length v)))))"

subsection \<open>The input element, the host and the caller's props\<close>

text \<open>
  The DOM node behind the component: the properties the code reads (\<open>value\<close>,
  \<open>scrollWidth\<close>, \<open>clientWidth\<close>, the left edge of \<open>getBoundingClientRect()\<close>) and
  the state its calls change (the selection and the focus). \<open>value\<close> of an input element
  is always a string, so \<open>input.value?.length || 0\<close> is the length of \<open>el_value\<close>.
\<close>

record element =
  el_value :: string
  scrollWidth :: int
  clientWidth :: int
  rect_left :: real
  inputType :: string
  selection :: "(int \<times> int) option"
  focused :: bool

text \<open>
  The browser is a parameter: the rounding \<open>fl\<close> of its arithmetic, and the two DOM
  methods the component calls. \<open>setSelectionRange\<close> either raises or returns the node
  with its selection set; \<open>focus\<close> does not raise and returns the focused node.
\<close>

record host =
  fl :: "real \<Rightarrow> real"
  setSelectionRange :: "element \<Rightarrow> int option \<Rightarrow> int option \<Rightarrow> exn + element"
  focus :: "element \<Rightarrow> element"

record mouseEvent =
  clientX :: real

record keyboardEvent =
  key :: string

text \<open>
  A procedure either returns or raises, and either way leaves a state behind: the state
  it returns with, or the state at the moment it raised. \<open>final\<close> is that state and
  \<open>raised\<close> tells the two apart.
\<close>

datatype 'a outcome =
    Returned 'a
  | Raised exn 'a

fun final :: "'a outcome \<Rightarrow> 'a" where
  "final (Returned s) = s"
| "final (Raised ex s) = s"

fun raised :: "'a outcome \<Rightarrow> bool" where
  "raised (Returned s) = False"
| "raised (Raised ex s) = True"

text \<open>
  The caller's props. Every handler is optional. A handler is an opaque procedure: it
  is modelled by what it does to the input element and by whether it returns or raises.
  \<open>otherHandlers\<close> are the handlers of any other DOM event among the props, which the
  component spreads onto the rendered element.
\<close>

record InputProps =
  onEnter :: "(string \<Rightarrow> keyboardEvent \<Rightarrow> element \<Rightarrow> element outcome) option"
  onEscape :: "(string \<Rightarrow> keyboardEvent \<Rightarrow> element \<Rightarrow> element outcome) option"
  onChangeValue :: "(string \<Rightarrow> element \<Rightarrow> element outcome) option"
  onUpdate :: "(string \<Rightarrow> element \<Rightarrow> element outcome) option"
  onClick :: "(mouseEvent \<Rightarrow> element \<Rightarrow> element outcome) option"
  onKeyUp :: "(keyboardEvent \<Rightarrow> element \<Rightarrow> element outcome) option"
  onBlur :: "(element \<Rightarrow> element outcome) option"
  onChange :: "(element \<Rightarrow> element outcome) option"
  otherHandlers :: "string \<Rightarrow> (element \<Rightarrow> element outcome) option"

text \<open>The calls the component makes, in the order it makes them.\<close>

datatype call =
    SetTimeout nat
  | SetSelectionRange "int option" "int option"
  | Focus
  | CallOnClick mouseEvent
  | CallOnKeyUp keyboardEvent
  | CallOnEnter string keyboardEvent
  | CallOnEscape string keyboardEvent
  | CallOnUpdate string
  | CallOnBlur
  | CallOnChangeValue string
  | CallOnChange
  | CallOther string

text \<open>
  A timer callback waiting in the browser's queue. The only one the component creates
  is the closure of \<open>handleClick\<close>, which captures the click's offset \<open>x\<close> (and the
  node, of which there is one).
\<close>

datatype task = CursorTask real

record world =
  input :: element
  calls :: "call list"
  timers :: "(nat \<times> task) list"

text \<open>
  Calling a handler records the call and runs the handler on the node; if the handler
  raises, so does the call. No handler of the component catches what a callback raises,
  so a statement after a call that raised is not reached: \<open>andThen\<close> is the semicolon.
\<close>

definition invoke :: "call \<Rightarrow> (element \<Rightarrow> element outcome) \<Rightarrow> world \<Rightarrow> world outcome" where
  "invoke c f w =
     (case f (input w) of
        Returned el \<Rightarrow> Returned (w\<lparr> input := el, calls := calls w @ [c] \<rparr>)
      | Raised ex el \<Rightarrow> Raised ex (w\<lparr> input := el, calls := calls w @ [c] \<rparr>))"

definition andThen :: "world outcome \<Rightarrow> (world \<Rightarrow> world outcome) \<Rightarrow> world outcome" where
  "andThen r g = (case r of Returned w \<Rightarrow> g w | Raised ex w \<Rightarrow> Raised ex w)"

subsection \<open>The click handler and its deferred callback\<close>

text \<open>
  \<open>handleClick\<close>: on Firefox it reads the click's offset and hands the closure to
  \<open>setTimeout(..., 0)\<close>, discarding the timer's id; then it calls the caller's
  \<open>onClick\<close>, if there is one.
\<close>

definition handleClick ::
  "host \<Rightarrow> navigator option \<Rightarrow> InputProps \<Rightarrow> mouseEvent \<Rightarrow> world \<Rightarrow> world outcome" where
  "handleClick h nav props e w =
     (let w1 = (if isFirefoxBrowser nav then
                  (let rect = rect_left (input w);
                       x = fl h (clientX e - rect)
                   in w\<lparr> calls := calls w @ [SetTimeout 0],
                         timers := timers w @ [(0, CursorTask x)] \<rparr>)
                else w)
      in (case onClick props of
            None \<Rightarrow> Returned w1
          | Some f \<Rightarrow> invoke (CallOnClick e) (f e) w1))"

text \<open>
  The deferred callback. \<open>input\<close> is the event's \<open>currentTarget\<close>, a node, so the
  guard \<open>if (input)\<close> holds. The result is \<open>Inl\<close> if an exception leaves the callback.
\<close>

definition cursorTask :: "host \<Rightarrow> real \<Rightarrow> world \<Rightarrow> exn + world" where
  "cursorTask h x w =
     (let inp = input w;
          textWidth = scrollWidth inp;
          containerWidth = clientWidth inp;
          pos = cursorPos (fl h) x textWidth containerWidth (el_value inp)
      in (case setSelectionRange h inp pos pos of
            Inr inp' \<Rightarrow>
              Inr (w\<lparr> input := inp', calls := calls w @ [SetSelectionRange pos pos] \<rparr>)
          | Inl ex \<Rightarrow>
              Inr (w\<lparr> input := focus h inp,
                      calls := calls w @ [SetSelectionRange pos pos, Focus] \<rparr>)))"

fun runTask :: "host \<Rightarrow> task \<Rightarrow> world \<Rightarrow> exn + world" where
  "runTask h (CursorTask x) w = cursorTask h x w"

text \<open>The browser's event loop takes the oldest timer off the queue and runs it.\<close>

definition fireTimer :: "host \<Rightarrow> world \<Rightarrow> exn + world" where
  "fireTimer h w =
     (case timers w of
        [] \<Rightarrow> Inr w
      | (d, t) # ts \<Rightarrow> runTask h t (w\<lparr> timers := ts \<rparr>))"

subsection \<open>The other handlers and the rendered element\<close>

definition Input_onKeyUp :: "InputProps \<Rightarrow> keyboardEvent \<Rightarrow> world \<Rightarrow> world outcome" where
  "Input_onKeyUp props e w =
     andThen (case onKeyUp props of
                None \<Rightarrow> Returned w
              | Some f \<Rightarrow> invoke (CallOnKeyUp e) (f e) w)
       (\<lambda>w1.
          andThen (case (key e = ''Enter'', onEnter props) of
                     (True, Some f) \<Rightarrow>
                       (let v = el_value (input w1)
                        in invoke (CallOnEnter v e) (f v e) w1)
                   | _ \<Rightarrow> Returned w1)
            (\<lambda>w2.
               (case (key e = ''Escape'', onEscape props) of
                  (True, Some f) \<Rightarrow>
                    (let v = el_value (input w2)
                     in invoke (CallOnEscape v e) (f v e) w2)
                | _ \<Rightarrow> Returned w2)))"

definition Input_onBlur :: "InputProps \<Rightarrow> world \<Rightarrow> world outcome" where
  "Input_onBlur props w =
     andThen (case onUpdate props of
                None \<Rightarrow> Returned w
              | Some f \<Rightarrow>
                  (let v = el_value (input w) in invoke (CallOnUpdate v) (f v) w))
       (\<lambda>w1.
          (case onBlur props of
             None \<Rightarrow> Returned w1
           | Some f \<Rightarrow> invoke CallOnBlur f w1))"

definition Input_onChange :: "InputProps \<Rightarrow> world \<Rightarrow> world outcome" where
  "Input_onChange props w =
     andThen (case onChangeValue props of
                None \<Rightarrow> Returned w
              | Some f \<Rightarrow>
                  (let v = el_value (input w) in invoke (CallOnChangeValue v) (f v) w))
       (\<lambda>w1.
          (case onChange props of
             None \<Rightarrow> Returned w1
           | Some f \<Rightarrow> invoke CallOnChange f w1))"

text \<open>
  The element \<open>Input\<close> renders carries the caller's props (\<open>{...props}\<close>) with
  \<open>onClick\<close>, \<open>onKeyUp\<close>, \<open>onBlur\<close> and \<open>onChange\<close> replaced by the component's own
  handlers. \<open>Input\<close> below is what that element does on a DOM event.
\<close>

datatype domEvent =
    Click mouseEvent
  | KeyUp keyboardEvent
  | Blur
  | Change
  | OtherEvent string

definition Input ::
  "host \<Rightarrow> navigator option \<Rightarrow> InputProps \<Rightarrow> domEvent \<Rightarrow> world \<Rightarrow> world outcome" where
  "Input h nav props ev w =
     (case ev of
        Click e \<Rightarrow> handleClick h nav props e w
      | KeyUp e \<Rightarrow> Input_onKeyUp props e w
      | Blur \<Rightarrow> Input_onBlur props w
      | Change \<Rightarrow> Input_onChange props w
      | OtherEvent n \<Rightarrow>
          (case otherHandlers props n of
             None \<Rightarrow> Returned w
           | Some f \<Rightarrow> invoke (CallOther n) f w))"

text \<open>The calls made between two worlds, the later one reached from the earlier.\<close>

definition emitted :: "world \<Rightarrow> world \<Rightarrow> call list" where
  "emitted w w' = drop (length (calls w)) (calls w')"

text \<open>
  Reading a list of calls: the arguments of the \<open>onEnter\<close> calls and of the
  \<open>onEscape\<close> calls in it, and whether the first \<open>a\<close> in it is followed by a \<open>b\<close>.
\<close>

fun enterCalls :: "call list \<Rightarrow> (string \<times> keyboardEvent) list" where
  "enterCalls [] = []"
| "enterCalls (CallOnEnter v e # cs) = (v, e) # enterCalls cs"
| "enterCalls (c # cs) = enterCalls cs"

fun escapeCalls :: "call list \<Rightarrow> (string \<times> keyboardEvent) list" where
  "escapeCalls [] = []"
| "escapeCalls (CallOnEscape v e # cs) = (v, e) # escapeCalls cs"
| "escapeCalls (c # cs) = escapeCalls cs"

fun before :: "'a \<Rightarrow> 'a \<Rightarrow> 'a list \<Rightarrow> bool" where
  "before a b [] = False"
| "before a b (c # cs) = (if c = a then b \<in> set cs else before a b cs)"

section \<open>Sample inputs\<close>

text \<open>
  Concrete inputs on which the properties below are evaluated: a feature-flag hook that
  reads the flag's preference, a browser whose \<open>setSelectionRange\<close> raises on an input
  of type \<open>number\<close> and whose arithmetic is exact, an input element, props with every
  handler given and returning, props whose \<open>onKeyUp\<close>, \<open>onUpdate\<close> and
  \<open>onChangeValue\<close> raise, and two \<open>navigator\<close> objects.
\<close>

definition sampleUseFeatureFlag :: "string \<Rightarrow> prefs \<Rightarrow> bool" where
  "sampleUseFeatureFlag flagName p = (p (flagPrefKey flagName) = Some ''true'')"

definition sampleHost :: host where
  "sampleHost =
     \<lparr> fl = (\<lambda>r. r),
       setSelectionRange = (\<lambda>el a b.
          if inputType el = ''number'' then Inl (Thrown ''InvalidStateError'')
          else Inr (el\<lparr> selection :=
                 Some (case a of None \<Rightarrow> 0 | Some i \<Rightarrow> i,
                       case b of None \<Rightarrow> 0 | Some i \<Rightarrow> i) \<rparr>)),
       focus = (\<lambda>el. el\<lparr> focused := True \<rparr>) \<rparr>"

definition sampleElement :: "string \<Rightarrow> element" where
  "sampleElement ty =
     \<lparr> el_value = ''hello world'', scrollWidth = 300, clientWidth = 150, rect_left = 10,
       inputType = ty, selection = None, focused = False \<rparr>"

definition sampleWorld :: "string \<Rightarrow> world" where
  "sampleWorld ty = \<lparr> input = sampleElement ty, calls = [], timers = [] \<rparr>"

definition sampleProps :: InputProps where
  "sampleProps =
     \<lparr> onEnter = Some (\<lambda>v e el. Returned el),
       onEscape = Some (\<lambda>v e el. Returned el),
       onChangeValue = Some (\<lambda>v el. Returned el),
       onUpdate = Some (\<lambda>v el. Returned el),
       onClick = Some (\<lambda>e el. Returned el),
       onKeyUp = Some (\<lambda>e el. Returned (el\<lparr> el_value := el_value el @ ''!'' \<rparr>)),
       onBlur = Some (\<lambda>el. Returned el),
       onChange = Some (\<lambda>el. Returned el),
       otherHandlers = (\<lambda>n. None) \<rparr>"

definition raisingProps :: InputProps where
  "raisingProps =
     \<lparr> onEnter = Some (\<lambda>v e el. Returned el),
       onEscape = Some (\<lambda>v e el. Returned el),
       onChangeValue = Some (\<lambda>v el. Raised (Thrown ''Error'') el),
       onUpdate = Some (\<lambda>v el. Raised (Thrown ''Error'') el),
       onClick = Some (\<lambda>e el. Returned el),
       onKeyUp = Some (\<lambda>e el. Raised (Thrown ''Error'') el),
       onBlur = Some (\<lambda>el. Returned el),
       onChange = Some (\<lambda>el. Returned el),
       otherHandlers = (\<lambda>n. None) \<rparr>"

definition firefoxNavigator :: navigator where
  "firefoxNavigator =
     \<lparr> userAgent = Inr (Some ''Mozilla/5.0 (X11; rv:109.0) Gecko/20100101 Firefox/115.0'') \<rparr>"

definition throwingNavigator :: navigator where
  "throwingNavigator = \<lparr> userAgent = Inl (Thrown ''SecurityError'') \<rparr>"

definition enterKey :: keyboardEvent where
  "enterKey = \<lparr> key = ''Enter'' \<rparr>"

definition sampleClick :: mouseEvent where
  "sampleClick = \<lparr> clientX = 95 / 2 \<rparr>"

section \<open>Properties of the feature toggles\<close>

lemma FeatureToggle_onChange_eq:
  "FeatureToggle_onChange flagName b p =
     p(''flags.'' @ flagName \<mapsto> (if b then ''false'' else ''true''))"
  by (simp add: FeatureToggle_onChange_def setSyncedPref_def flagPrefKey_def js_String_def)

lemma findToggle_flag: "findToggle f vs = Some v \<Longrightarrow> view_flag v = f"
  by (induction vs) (auto split: if_splits)

lemma findToggle_mem: "findToggle f vs = Some v \<Longrightarrow> v \<in> set vs"
  by (induction vs) (auto split: if_splits)

lemma toggles_checked:
  "v \<in> set (toggles (ExperimentalFeatures uff st p ls)) \<Longrightarrow>
     checked v = uff (view_flag v) p \<and> \<not> disabled v"
  by (auto simp: toggles_def ExperimentalFeatures_def FeatureToggle_def Let_def
        split: if_splits)

text \<open>
  Claim C1. The change handler of a feature toggle whose displayed state is \<open>b\<close> writes
  the string of \<open>\<not> b\<close> under the key \<open>flags.<flagName>\<close> and changes no other
  preference; the value written is \<open>"true"\<close> or \<open>"false"\<close>; after two toggles the
  stored string is that of the last one; and for every toggle the expanded panel shows,
  the displayed state is the hook's value and a change of its checkbox performs this
  write.
\<close>

theorem FeatureToggle_onChange_writes_negation:
  "FeatureToggle_onChange flagName b p =
     p(''flags.'' @ flagName \<mapsto> (if b then ''false'' else ''true''))
   \<and> FeatureToggle_onChange flagName b p (''flags.'' @ flagName) \<in> {Some ''true'', Some ''false''}
   \<and> FeatureToggle_onChange flagName b' (FeatureToggle_onChange flagName b p)
        (''flags.'' @ flagName) = Some (js_String (\<not> b'))
   \<and> (findToggle f (toggles (ExperimentalFeatures uff st p ls)) = Some v \<longrightarrow>
        checked v = uff f p \<and>
        snd (panelStep uff ls (CheckboxChange f) (st, p)) =
          p(''flags.'' @ f \<mapsto> js_String (\<not> uff f p)))"
proof -
  have a: "findToggle f (toggles (ExperimentalFeatures uff st p ls)) = Some v \<longrightarrow>
        checked v = uff f p \<and>
        snd (panelStep uff ls (CheckboxChange f) (st, p)) =
          p(''flags.'' @ f \<mapsto> js_String (\<not> uff f p))"
  proof
    assume h: "findToggle f (toggles (ExperimentalFeatures uff st p ls)) = Some v"
    have vf: "view_flag v = f" using h by (rule findToggle_flag)
    have cv: "checked v = uff f p \<and> \<not> disabled v"
      using toggles_checked [OF findToggle_mem [OF h]] vf by simp
    obtain vs where ex: "ExperimentalFeatures uff st p ls = Toggles vs"
      using h by (cases "ExperimentalFeatures uff st p ls") (simp_all add: toggles_def)
    have "snd (panelStep uff ls (CheckboxChange f) (st, p)) = FeatureToggle_onChange f (uff f p) p"
      using h cv vf by (simp add: panelStep_def ex toggles_def)
    then show "checked v = uff f p \<and>
        snd (panelStep uff ls (CheckboxChange f) (st, p)) =
          p(''flags.'' @ f \<mapsto> js_String (\<not> uff f p))"
      using cv by (simp add: FeatureToggle_onChange_eq js_String_def)
  qed
  show ?thesis
    using a by (simp add: FeatureToggle_onChange_eq js_String_def)
qed

theorem FeatureToggle_onChange_writes_negation_witness:
  "findToggle ''actionTemplating''
     (toggles (ExperimentalFeatures sampleUseFeatureFlag \<lparr>expanded = True\<rparr>
        [''flags.actionTemplating'' \<mapsto> ''true''] Map.empty))
     = Some \<lparr> view_flag = ''actionTemplating'', checked = True, disabled = False,
              label = ''Rule action templating'',
              link = Some ''https://github.com/actualbudget/actual/issues/3606'',
              errorText = None \<rparr>
   \<and> snd (panelStep sampleUseFeatureFlag Map.empty (CheckboxChange ''actionTemplating'')
        (\<lparr>expanded = True\<rparr>, [''flags.actionTemplating'' \<mapsto> ''true'']))
       ''flags.actionTemplating'' = Some ''false''"
proof -
  have h: "findToggle ''actionTemplating''
     (toggles (ExperimentalFeatures sampleUseFeatureFlag \<lparr>expanded = True\<rparr>
        [''flags.actionTemplating'' \<mapsto> ''true''] Map.empty))
     = Some \<lparr> view_flag = ''actionTemplating'', checked = True, disabled = False,
              label = ''Rule action templating'',
              link = Some ''https://github.com/actualbudget/actual/issues/3606'',
              errorText = None \<rparr>"
    by (simp add: ExperimentalFeatures_def toggles_def FeatureToggle_def Let_def
          showGoalTemplatesUI_def sampleUseFeatureFlag_def flagPrefKey_def)
  have s: "sampleUseFeatureFlag ''actionTemplating'' [''flags.actionTemplating'' \<mapsto> ''true'']"
    by (simp add: sampleUseFeatureFlag_def flagPrefKey_def)
  show ?thesis
    using h s FeatureToggle_onChange_writes_negation [where f = "''actionTemplating''" and uff = sampleUseFeatureFlag
          and st = "\<lparr>expanded = True\<rparr>"
          and p = "[''flags.actionTemplating'' \<mapsto> ''true'']" and ls = Map.empty]
    by (simp add: js_String_def)
qed

text \<open>
  Claim C2. In the expanded panel the toggle of \<open>goalTemplatesUIEnabled\<close> is rendered
  exactly when that flag is on, or \<open>goalTemplatesEnabled\<close> is on and local storage
  holds the string \<open>"true"\<close> under \<open>devEnableGoalTemplatesUI\<close>.
\<close>

theorem goalTemplatesUI_toggle_rendered_iff:
  "(''goalTemplatesUIEnabled'' \<in> set (map view_flag (toggles (ExperimentalFeatures uff \<lparr>expanded = True\<rparr> p ls))))
   = (uff ''goalTemplatesUIEnabled'' p \<or> (uff ''goalTemplatesEnabled'' p \<and> ls ''devEnableGoalTemplatesUI'' = Some ''true''))"
  by (auto simp add: ExperimentalFeatures_def toggles_def FeatureToggle_def showGoalTemplatesUI_def Let_def)

text \<open>
  Claim C5. The state of \<open>ExperimentalFeatures\<close> is one boolean, \<open>expanded\<close>,
  initially false; collapsed, the component renders the link; expanded, it renders the
  list of feature toggles instead.
\<close>

theorem ExperimentalFeatures_expansion_state:
  "(st :: ExperimentalFeaturesState) = \<lparr>expanded = expanded st\<rparr>
   \<and> expanded ExperimentalFeatures_init = False
   \<and> ExperimentalFeatures uff \<lparr>expanded = False\<rparr> p ls = ShowLink
   \<and> ExperimentalFeatures uff \<lparr>expanded = True\<rparr> p ls \<noteq> ShowLink
   \<and> (\<exists>vs. ExperimentalFeatures uff \<lparr>expanded = True\<rparr> p ls = Toggles vs \<and>
        {''goalTemplatesEnabled'', ''actionTemplating'', ''pluggyAiBankSync''} \<subseteq> set (map view_flag vs))"
  by (simp add: ExperimentalFeatures_init_def ExperimentalFeatures_def FeatureToggle_def Let_def)

lemma panelStep_expanded:
  "expanded (fst (panelStep uff ls ev sp)) = (expanded (fst sp) \<or> ev = LinkClick)"
  by (cases sp; cases ev)
     (auto simp: panelStep_def ExperimentalFeatures_def
           split: primaryAction.splits option.splits if_splits)

lemma panelRun_expanded:
  "expanded (fst (panelRun uff ls evs sp)) = (expanded (fst sp) \<or> LinkClick \<in> set evs)"
  by (induction evs arbitrary: sp) (auto simp: panelStep_expanded)

text \<open>
  Claim C8. The expansion flag only ever goes from false to true: a step leaves the panel
  expanded exactly when it was expanded or the step is the click on the link, so once
  expanded the panel stays expanded under every sequence of events.
\<close>

theorem expanded_monotone:
  "(expanded (fst sp) \<longrightarrow> expanded (fst (panelRun uff ls evs sp)))
   \<and> expanded (fst (panelStep uff ls ev sp)) = (expanded (fst sp) \<or> ev = LinkClick)
   \<and> expanded (fst (panelRun uff ls evs sp)) = (expanded (fst sp) \<or> LinkClick \<in> set evs)"
  by (simp add: panelStep_expanded panelRun_expanded)

theorem expanded_monotone_witness:
  "expanded (fst (\<lparr>expanded = True\<rparr>, Map.empty))
   \<and> expanded (fst (panelRun sampleUseFeatureFlag Map.empty
         [CheckboxChange ''actionTemplating'', LinkClick, CheckboxChange ''goalTemplatesEnabled'']
         (\<lparr>expanded = True\<rparr>, Map.empty)))"
  using expanded_monotone [where sp = "(\<lparr>expanded = True\<rparr>, Map.empty)" and uff = sampleUseFeatureFlag
        and ls = Map.empty
        and evs = "[CheckboxChange ''actionTemplating'', LinkClick, CheckboxChange ''goalTemplatesEnabled'']"]
  by simp

section \<open>Properties of the text input\<close>

lemma isFirefoxBrowser_firefoxNavigator: "isFirefoxBrowser (Some firefoxNavigator)"
  unfolding firefoxNavigator_def by code_simp

text \<open>
  Claim C3, as stated, says the \<open>try\<close>/\<open>catch\<close> of the deferred callback is the only
  place where the program handles a failure. The browser detection handles one too: when
  reading \<open>navigator.userAgent\<close> raises, the detection does not fail, it yields false.
\<close>

theorem isFirefoxBrowser_catches_counterexample:
  "userAgent throwingNavigator = Inl (Thrown ''SecurityError'')
   \<and> isFirefoxBrowser (Some throwingNavigator) = False"
  by (simp add: throwingNavigator_def isFirefoxBrowser_def)

text \<open>
  Claim C3, amended. When \<open>setSelectionRange\<close> raises in the deferred callback, the
  exception is caught and the callback calls \<open>focus()\<close> on the input; no exception
  leaves the callback, run directly or from the timer queue. This \<open>try\<close>/\<open>catch\<close> is
  not the only place that handles a failure: the browser detection yields false when
  reading \<open>navigator.userAgent\<close> raises.
\<close>

theorem cursorTask_catches_setSelectionRange:
  "(setSelectionRange h (input w)
       (cursorPos (fl h) x (scrollWidth (input w)) (clientWidth (input w)) (el_value (input w)))
       (cursorPos (fl h) x (scrollWidth (input w)) (clientWidth (input w)) (el_value (input w)))
      = Inl ex \<longrightarrow>
    (\<exists>w'. cursorTask h x w = Inr w' \<and> input w' = focus h (input w)
        \<and> emitted w w' =
            [SetSelectionRange
               (cursorPos (fl h) x (scrollWidth (input w)) (clientWidth (input w)) (el_value (input w)))
               (cursorPos (fl h) x (scrollWidth (input w)) (clientWidth (input w)) (el_value (input w))),
             Focus]))
   \<and> (\<exists>w'. cursorTask h x w = Inr w')
   \<and> (\<exists>w'. fireTimer h w = Inr w')
   \<and> (userAgent n = Inl ex' \<longrightarrow> isFirefoxBrowser (Some n) = False)"
proof -
  have a: "\<exists>w'. cursorTask h x w = Inr w'" for x w
    by (simp add: cursorTask_def Let_def split: sum.split)
  have b: "\<exists>w'. fireTimer h w = Inr w'"
  proof (cases "timers w")
    case Nil
    then show ?thesis by (simp add: fireTimer_def)
  next
    case (Cons dt ts)
    obtain d t where dt: "dt = (d, t)" by (cases dt)
    obtain y where t: "t = CursorTask y" by (cases t)
    show ?thesis using a [of y "w\<lparr>timers := ts\<rparr>"] by (simp add: fireTimer_def Cons dt t)
  qed
  show ?thesis
    using a [of x w] b
    by (simp add: cursorTask_def Let_def emitted_def isFirefoxBrowser_def)
qed

theorem cursorTask_catches_setSelectionRange_witness:
  "setSelectionRange sampleHost (input (sampleWorld ''number'')) (Some 3) (Some 3)
      = Inl (Thrown ''InvalidStateError'')
   \<and> cursorTask sampleHost (75 / 2) (sampleWorld ''number'')
      = Inr \<lparr> input = (sampleElement ''number'')\<lparr> focused := True \<rparr>,
              calls = [SetSelectionRange (Some 3) (Some 3), Focus], timers = [] \<rparr>
   \<and> userAgent throwingNavigator = Inl (Thrown ''SecurityError'')
   \<and> isFirefoxBrowser (Some throwingNavigator) = False"
proof -
  have p: "cursorPos (fl sampleHost) (75 / 2) (scrollWidth (input (sampleWorld ''number'')))
             (clientWidth (input (sampleWorld ''number''))) (el_value (input (sampleWorld ''number'')))
           = Some 3"
    by (simp add: cursorPos_def textRatio_def relativeX_def round_def sampleHost_def
          sampleWorld_def sampleElement_def)
  have s: "setSelectionRange sampleHost (input (sampleWorld ''number'')) (Some 3) (Some 3)
      = Inl (Thrown ''InvalidStateError'')"
    by (simp add: sampleHost_def sampleWorld_def sampleElement_def)
  have u: "userAgent throwingNavigator = Inl (Thrown ''SecurityError'')"
    by (simp add: throwingNavigator_def)
  from cursorTask_catches_setSelectionRange [where h = sampleHost and w = "sampleWorld ''number''" and x = "75 / 2"
        and ex = "Thrown ''InvalidStateError''" and n = throwingNavigator
        and ex' = "Thrown ''SecurityError''"]
  obtain w' where w': "cursorTask sampleHost (75 / 2) (sampleWorld ''number'') = Inr w'"
      "input w' = focus sampleHost (input (sampleWorld ''number''))"
      "emitted (sampleWorld ''number'') w' = [SetSelectionRange (Some 3) (Some 3), Focus]"
    and f: "isFirefoxBrowser (Some throwingNavigator) = False"
    using p s u by auto
  have "w' = \<lparr> input = (sampleElement ''number'')\<lparr> focused := True \<rparr>,
              calls = [SetSelectionRange (Some 3) (Some 3), Focus], timers = [] \<rparr>"
    using w' p s by (simp add: cursorTask_def Let_def sampleHost_def sampleWorld_def sampleElement_def)
  then show ?thesis using w'(1) s u f by simp
qed

subsection \<open>The calls each event makes\<close>

lemma final_andThen:
  "final (andThen r g) = (if raised r then final r else final (g (final r)))"
  by (cases r) (simp_all add: andThen_def)

lemma calls_invoke: "calls (final (invoke c f w)) = calls w @ [c]"
  by (simp add: invoke_def split: outcome.split)

lemma input_invoke: "input (final (invoke c f w)) = final (f (input w))"
  by (simp add: invoke_def split: outcome.split)

lemma timers_invoke: "timers (final (invoke c f w)) = timers w"
  by (simp add: invoke_def split: outcome.split)

lemma raised_invoke: "raised (invoke c f w) = raised (f (input w))"
  by (simp add: invoke_def split: outcome.split)

lemma calls_Click:
  "calls (final (handleClick h nav props e w)) =
     calls w @ (if isFirefoxBrowser nav then [SetTimeout 0] else [])
     @ (case onClick props of None \<Rightarrow> [] | Some f \<Rightarrow> [CallOnClick e])"
  by (simp add: handleClick_def calls_invoke Let_def split: option.split)

lemma calls_KeyUp:
  "calls (final (Input_onKeyUp props k w)) =
     calls w @ (case onKeyUp props of None \<Rightarrow> [] | Some f \<Rightarrow> [CallOnKeyUp k])
     @ (if (case onKeyUp props of None \<Rightarrow> False | Some f \<Rightarrow> raised (f k (input w)))
        then []
        else (if key k = ''Enter'' \<and> onEnter props \<noteq> None
              then [CallOnEnter (el_value (case onKeyUp props of None \<Rightarrow> input w
                                           | Some f \<Rightarrow> final (f k (input w)))) k]
              else [])
           @ (if key k = ''Escape'' \<and> onEscape props \<noteq> None
              then [CallOnEscape (el_value (case onKeyUp props of None \<Rightarrow> input w
                                            | Some f \<Rightarrow> final (f k (input w)))) k]
              else []))"
proof (cases "key k = ''Enter''")
  case True
  then have ne: "key k \<noteq> ''Escape''" by simp
  show ?thesis
    using True ne
    by (cases "onKeyUp props"; cases "onEnter props"; cases "onEscape props")
       (simp_all add: Input_onKeyUp_def final_andThen calls_invoke input_invoke
          raised_invoke Let_def)
next
  case False
  show ?thesis
    using False
    by (cases "onKeyUp props"; cases "onEnter props"; cases "onEscape props";
        cases "key k = ''Escape''")
       (simp_all add: Input_onKeyUp_def final_andThen calls_invoke input_invoke
          raised_invoke Let_def)
qed

lemma calls_Blur:
  "calls (final (Input_onBlur props w)) =
     calls w @ (case onUpdate props of None \<Rightarrow> []
                | Some f \<Rightarrow> [CallOnUpdate (el_value (input w))])
     @ (if (case onUpdate props of None \<Rightarrow> False
            | Some f \<Rightarrow> raised (f (el_value (input w)) (input w)))
        then []
        else (case onBlur props of None \<Rightarrow> [] | Some f \<Rightarrow> [CallOnBlur]))"
  by (cases "onUpdate props"; cases "onBlur props")
     (simp_all add: Input_onBlur_def final_andThen calls_invoke raised_invoke Let_def)

lemma calls_Change:
  "calls (final (Input_onChange props w)) =
     calls w @ (case onChangeValue props of None \<Rightarrow> []
                | Some f \<Rightarrow> [CallOnChangeValue (el_value (input w))])
     @ (if (case onChangeValue props of None \<Rightarrow> False
            | Some f \<Rightarrow> raised (f (el_value (input w)) (input w)))
        then []
        else (case onChange props of None \<Rightarrow> [] | Some f \<Rightarrow> [CallOnChange]))"
  by (cases "onChangeValue props"; cases "onChange props")
     (simp_all add: Input_onChange_def final_andThen calls_invoke raised_invoke Let_def)

lemma timers_handleClick:
  "timers (final (handleClick h nav props e w)) =
     timers w @ (if isFirefoxBrowser nav
                 then [(0, CursorTask (fl h (clientX e - rect_left (input w))))] else [])"
  by (simp add: handleClick_def timers_invoke Let_def split: option.split)

lemma timers_KeyUp: "timers (final (Input_onKeyUp props k w)) = timers w"
  by (cases "onKeyUp props"; cases "onEnter props"; cases "onEscape props";
      cases "key k = ''Enter''"; cases "key k = ''Escape''")
     (simp_all add: Input_onKeyUp_def final_andThen timers_invoke Let_def)

lemma timers_Blur: "timers (final (Input_onBlur props w)) = timers w"
  by (cases "onUpdate props"; cases "onBlur props")
     (simp_all add: Input_onBlur_def final_andThen timers_invoke Let_def)

lemma timers_Change: "timers (final (Input_onChange props w)) = timers w"
  by (cases "onChangeValue props"; cases "onChange props")
     (simp_all add: Input_onChange_def final_andThen timers_invoke Let_def)

lemma emitted_Click:
  "emitted w (final (Input h nav props (Click e) w)) =
     (if isFirefoxBrowser nav then [SetTimeout 0] else [])
     @ (case onClick props of None \<Rightarrow> [] | Some f \<Rightarrow> [CallOnClick e])"
  by (simp add: Input_def emitted_def calls_Click)

lemma emitted_KeyUp:
  "emitted w (final (Input h nav props (KeyUp k) w)) =
     (case onKeyUp props of None \<Rightarrow> [] | Some f \<Rightarrow> [CallOnKeyUp k])
     @ (if (case onKeyUp props of None \<Rightarrow> False | Some f \<Rightarrow> raised (f k (input w)))
        then []
        else (if key k = ''Enter'' \<and> onEnter props \<noteq> None
              then [CallOnEnter (el_value (case onKeyUp props of None \<Rightarrow> input w
                                           | Some f \<Rightarrow> final (f k (input w)))) k]
              else [])
           @ (if key k = ''Escape'' \<and> onEscape props \<noteq> None
              then [CallOnEscape (el_value (case onKeyUp props of None \<Rightarrow> input w
                                            | Some f \<Rightarrow> final (f k (input w)))) k]
              else []))"
  by (simp only: Input_def domEvent.case emitted_def calls_KeyUp append_eq_conv_conj
        drop_append length_append) simp

lemma emitted_Blur:
  "emitted w (final (Input h nav props Blur w)) =
     (case onUpdate props of None \<Rightarrow> [] | Some f \<Rightarrow> [CallOnUpdate (el_value (input w))])
     @ (if (case onUpdate props of None \<Rightarrow> False
            | Some f \<Rightarrow> raised (f (el_value (input w)) (input w)))
        then []
        else (case onBlur props of None \<Rightarrow> [] | Some f \<Rightarrow> [CallOnBlur]))"
  by (simp add: Input_def emitted_def calls_Blur)

lemma emitted_Change:
  "emitted w (final (Input h nav props Change w)) =
     (case onChangeValue props of None \<Rightarrow> []
      | Some f \<Rightarrow> [CallOnChangeValue (el_value (input w))])
     @ (if (case onChangeValue props of None \<Rightarrow> False
            | Some f \<Rightarrow> raised (f (el_value (input w)) (input w)))
        then []
        else (case onChange props of None \<Rightarrow> [] | Some f \<Rightarrow> [CallOnChange]))"
  by (simp add: Input_def emitted_def calls_Change)

lemma emitted_Other:
  "emitted w (final (Input h nav props (OtherEvent n) w)) =
     (case otherHandlers props n of None \<Rightarrow> [] | Some f \<Rightarrow> [CallOther n])"
  by (simp add: Input_def emitted_def calls_invoke split: option.split)

lemma timers_Input:
  "timers (final (Input h nav props ev w)) =
     timers w @ (case ev of
                   Click e \<Rightarrow> (if isFirefoxBrowser nav
                               then [(0, CursorTask (fl h (clientX e - rect_left (input w))))]
                               else [])
                 | _ \<Rightarrow> [])"
  by (cases ev)
     (simp_all add: Input_def timers_handleClick timers_KeyUp timers_Blur timers_Change
        timers_invoke split: option.split)


text \<open>
  Claim C6, as stated, says \<open>onEnter\<close> is called whenever the key is \<open>Enter\<close> and
  \<open>onEnter\<close> is given. The key-up handler calls the caller's \<open>onKeyUp\<close> first and
  does not guard the call: when that raises, the handler is left before the test for
  \<open>Enter\<close>, and \<open>onEnter\<close> is not called.
\<close>

theorem raising_onKeyUp_skips_onEnter_counterexample:
  "key enterKey = ''Enter'' \<and> onEnter raisingProps \<noteq> None
   \<and> enterCalls (emitted (sampleWorld ''text'')
        (final (Input sampleHost None raisingProps (KeyUp enterKey) (sampleWorld ''text'')))) = []"
  by (simp add: emitted_KeyUp raisingProps_def enterKey_def)

text \<open>
  Claim C6, amended. The component's own handlers are those of click, change, blur and
  key-up: on any other event the rendered element makes only the call of the caller's
  own handler for it, and schedules nothing. \<open>onEnter\<close> is called, once and with the
  input's value at that moment (after the caller's \<open>onKeyUp\<close> has run), exactly when
  the event is a key-up of \<open>Enter\<close>, \<open>onEnter\<close> is given and the caller's
  \<open>onKeyUp\<close>, if given, has returned without raising; likewise \<open>onEscape\<close> for
  \<open>Escape\<close>.
\<close>

theorem Input_keyUp_enter_escape:
  "emitted w (final (Input h nav props (OtherEvent n) w)) =
     (case otherHandlers props n of None \<Rightarrow> [] | Some f \<Rightarrow> [CallOther n])
   \<and> timers (final (Input h nav props (OtherEvent n) w)) = timers w
   \<and> enterCalls (emitted w (final (Input h nav props ev w))) =
       (case ev of
          KeyUp e \<Rightarrow>
            (if key e = ''Enter'' \<and> onEnter props \<noteq> None
                \<and> \<not> (case onKeyUp props of None \<Rightarrow> False
                       | Some f \<Rightarrow> raised (f e (input w)))
             then [(el_value (case onKeyUp props of None \<Rightarrow> input w
                              | Some f \<Rightarrow> final (f e (input w))), e)]
             else [])
        | _ \<Rightarrow> [])
   \<and> escapeCalls (emitted w (final (Input h nav props ev w))) =
       (case ev of
          KeyUp e \<Rightarrow>
            (if key e = ''Escape'' \<and> onEscape props \<noteq> None
                \<and> \<not> (case onKeyUp props of None \<Rightarrow> False
                       | Some f \<Rightarrow> raised (f e (input w)))
             then [(el_value (case onKeyUp props of None \<Rightarrow> input w
                              | Some f \<Rightarrow> final (f e (input w))), e)]
             else [])
        | _ \<Rightarrow> [])"
proof -
  have en: "enterCalls (emitted w (final (Input h nav props ev w))) =
       (case ev of
          KeyUp e \<Rightarrow>
            (if key e = ''Enter'' \<and> onEnter props \<noteq> None
                \<and> \<not> (case onKeyUp props of None \<Rightarrow> False
                       | Some f \<Rightarrow> raised (f e (input w)))
             then [(el_value (case onKeyUp props of None \<Rightarrow> input w
                              | Some f \<Rightarrow> final (f e (input w))), e)]
             else [])
        | _ \<Rightarrow> [])"
    by (cases ev)
       (simp_all add: emitted_Click emitted_KeyUp emitted_Blur emitted_Change
          emitted_Other split: option.split)
  have es: "escapeCalls (emitted w (final (Input h nav props ev w))) =
       (case ev of
          KeyUp e \<Rightarrow>
            (if key e = ''Escape'' \<and> onEscape props \<noteq> None
                \<and> \<not> (case onKeyUp props of None \<Rightarrow> False
                       | Some f \<Rightarrow> raised (f e (input w)))
             then [(el_value (case onKeyUp props of None \<Rightarrow> input w
                              | Some f \<Rightarrow> final (f e (input w))), e)]
             else [])
        | _ \<Rightarrow> [])"
    by (cases ev)
       (simp_all add: emitted_Click emitted_KeyUp emitted_Blur emitted_Change
          emitted_Other split: option.split)
  have ot: "emitted w (final (Input h nav props (OtherEvent n) w)) =
     (case otherHandlers props n of None \<Rightarrow> [] | Some f \<Rightarrow> [CallOther n])"
    by (rule emitted_Other)
  have ti: "timers (final (Input h nav props (OtherEvent n) w)) = timers w"
    by (simp add: timers_Input)
  show ?thesis by (intro conjI ot ti en es)
qed

theorem Input_keyUp_enter_escape_witness:
  "key enterKey = ''Enter'' \<and> onEnter sampleProps \<noteq> None
   \<and> enterCalls (emitted (sampleWorld ''text'')
        (final (Input sampleHost None sampleProps (KeyUp enterKey) (sampleWorld ''text''))))
       = [(''hello world!'', enterKey)]
   \<and> escapeCalls (emitted (sampleWorld ''text'')
        (final (Input sampleHost None sampleProps (KeyUp enterKey) (sampleWorld ''text''))))
       = []"
  using Input_keyUp_enter_escape [where w = "sampleWorld ''text''" and h = sampleHost and nav = None
        and props = sampleProps and ev = "KeyUp enterKey"]
  by (simp add: sampleProps_def sampleWorld_def sampleElement_def enterKey_def)

subsection \<open>The range of the cursor position\<close>

lemma cursorPos_bounds:
  assumes mono: "\<And>a b. a \<le> b \<Longrightarrow> rnd a \<le> rnd b"
    and z: "rnd 0 = 0" and o: "rnd 1 = 1"
    and l: "rnd (real (length v)) = real (length v)"
    and cw: "0 < containerWidth"
  shows "\<exists>p. cursorPos rnd x textWidth containerWidth v = Some p \<and> 0 \<le> p \<and> p \<le> int (length v)"
proof -
  obtain r where r: "textRatio rnd x textWidth containerWidth = Some r" and r0: "0 \<le> r" and r1: "r \<le> 1"
  proof (cases "textWidth > 0")
    case True
    let ?q = "relativeX x containerWidth / real_of_int containerWidth"
    have "0 \<le> relativeX x containerWidth" "relativeX x containerWidth \<le> real_of_int containerWidth"
      using cw by (simp_all add: relativeX_def)
    then have "0 \<le> ?q" "?q \<le> 1" using cw by simp_all
    then have "rnd 0 \<le> rnd ?q" "rnd ?q \<le> rnd 1" by (auto intro: mono)
    then have "0 \<le> rnd ?q" "rnd ?q \<le> 1" using z o by simp_all
    moreover have "textRatio rnd x textWidth containerWidth = Some (rnd ?q)"
      using True cw by (simp add: textRatio_def)
    ultimately show ?thesis using that by blast
  next
    case False
    then have "textRatio rnd x textWidth containerWidth = Some 0"
      by (simp add: textRatio_def)
    then show ?thesis using that by simp
  qed
  let ?n = "real (length v)"
  have lo: "0 \<le> r * ?n" using r0 by simp
  have "r * ?n \<le> 1 * ?n" using r1 by (intro mult_right_mono) simp_all
  then have hi: "r * ?n \<le> ?n" by simp
  have "rnd 0 \<le> rnd (r * ?n)" using lo by (rule mono)
  moreover have "rnd (r * ?n) \<le> rnd ?n" using hi by (rule mono)
  ultimately have "rnd 0 \<le> rnd (r * ?n)" "rnd (r * ?n) \<le> rnd ?n" by simp_all
  then have b: "0 \<le> rnd (r * ?n)" "rnd (r * ?n) \<le> ?n" using z l by simp_all
  have "round (0::real) \<le> round (rnd (r * ?n))" using b(1) by (rule round_mono)
  moreover have "round (rnd (r * ?n)) \<le> round ?n" using b(2) by (rule round_mono)
  moreover have "round ?n = int (length v)"
    using round_of_int [of "int (length v)", where 'a = real] by simp
  ultimately have "0 \<le> round (rnd (r * ?n))" "round (rnd (r * ?n)) \<le> int (length v)" by simp_all
  then show ?thesis using r by (simp add: cursorPos_def)
qed

text \<open>
  Claim C7. When the deferred callback runs on an input whose \<open>clientWidth\<close> is
  positive, the position it computes and passes to \<open>setSelectionRange\<close> is an integer
  from 0 to the length of the input's value. The rounding of the browser's arithmetic
  is assumed monotone and exact at 0, at 1 and at the length, as rounding to the nearest
  double is; exact arithmetic is one such rounding.
\<close>

theorem cursorPos_within_value:
  assumes "\<And>a b. a \<le> b \<Longrightarrow> fl h a \<le> fl h b"
    and "fl h 0 = 0" and "fl h 1 = 1"
    and "fl h (real (length (el_value (input w)))) = real (length (el_value (input w)))"
    and "0 < clientWidth (input w)"
  shows "\<exists>p w'. cursorPos (fl h) x (scrollWidth (input w)) (clientWidth (input w))
                   (el_value (input w)) = Some p
           \<and> 0 \<le> p \<and> p \<le> int (length (el_value (input w)))
           \<and> cursorTask h x w = Inr w'
           \<and> take 1 (emitted w w') = [SetSelectionRange (Some p) (Some p)]"
proof -
  obtain p where p: "cursorPos (fl h) x (scrollWidth (input w)) (clientWidth (input w))
                   (el_value (input w)) = Some p" "0 \<le> p" "p \<le> int (length (el_value (input w)))"
    using cursorPos_bounds [of "fl h" "el_value (input w)" "clientWidth (input w)" x
            "scrollWidth (input w)"] assms by blast
  have "\<exists>w'. cursorTask h x w = Inr w'
           \<and> take 1 (emitted w w') = [SetSelectionRange (Some p) (Some p)]"
    using p(1) by (simp add: cursorTask_def Let_def emitted_def split: sum.split)
  then show ?thesis using p by blast
qed

theorem cursorPos_within_value_witness:
  "0 < clientWidth (input (sampleWorld ''text''))
   \<and> fl sampleHost 0 = 0 \<and> fl sampleHost 1 = 1
   \<and> cursorPos (fl sampleHost) (75 / 2) (scrollWidth (input (sampleWorld ''text'')))
        (clientWidth (input (sampleWorld ''text''))) (el_value (input (sampleWorld ''text'')))
       = Some 3
   \<and> (\<exists>p w'. cursorPos (fl sampleHost) (75 / 2) (scrollWidth (input (sampleWorld ''text'')))
                 (clientWidth (input (sampleWorld ''text'')))
                 (el_value (input (sampleWorld ''text''))) = Some p
           \<and> 0 \<le> p \<and> p \<le> int (length (el_value (input (sampleWorld ''text''))))
           \<and> cursorTask sampleHost (75 / 2) (sampleWorld ''text'') = Inr w'
           \<and> take 1 (emitted (sampleWorld ''text'') w') = [SetSelectionRange (Some p) (Some p)])"
proof -
  have m: "\<And>a b. a \<le> b \<Longrightarrow> fl sampleHost a \<le> fl sampleHost b"
    by (simp add: sampleHost_def)
  have z: "fl sampleHost 0 = 0" "fl sampleHost 1 = 1"
    by (simp_all add: sampleHost_def)
  have l: "fl sampleHost (real (length (el_value (input (sampleWorld ''text'')))))
           = real (length (el_value (input (sampleWorld ''text''))))"
    by (simp add: sampleHost_def)
  have c: "0 < clientWidth (input (sampleWorld ''text''))"
    by (simp add: sampleWorld_def sampleElement_def)
  have p: "cursorPos (fl sampleHost) (75 / 2) (scrollWidth (input (sampleWorld ''text'')))
        (clientWidth (input (sampleWorld ''text''))) (el_value (input (sampleWorld ''text'')))
       = Some 3"
    by (simp add: cursorPos_def textRatio_def relativeX_def round_def sampleHost_def
          sampleWorld_def sampleElement_def)
  show ?thesis
    using cursorPos_within_value [of sampleHost "sampleWorld ''text''" "75 / 2", OF m z l c] c z p by blast
qed

subsection \<open>Order of the caller's handlers\<close>

text \<open>
  Claim C9, as stated, says every caller's handler among \<open>onClick\<close>, \<open>onKeyUp\<close>,
  \<open>onBlur\<close> and \<open>onChange\<close> is called once per event. The blur handler calls
  \<open>onUpdate\<close> first and does not guard the call: when \<open>onUpdate\<close> raises, the
  caller's \<open>onBlur\<close> is not called.
\<close>

theorem raising_onUpdate_skips_onBlur_counterexample:
  "onBlur raisingProps \<noteq> None
   \<and> count_list (emitted (sampleWorld ''text'')
        (final (Input sampleHost None raisingProps Blur (sampleWorld ''text'')))) CallOnBlur = 0"
  by (simp add: emitted_Blur raisingProps_def)

text \<open>
  Claim C9, amended. Each event makes the calls listed, in that order: the timer, then
  the caller's \<open>onClick\<close>; the caller's \<open>onKeyUp\<close>, then \<open>onEnter\<close> or
  \<open>onEscape\<close>; \<open>onUpdate\<close>, then the caller's \<open>onBlur\<close>; \<open>onChangeValue\<close>, then
  the caller's \<open>onChange\<close>. A caller's \<open>onClick\<close> or \<open>onKeyUp\<close> that is given is
  called exactly once; a caller's \<open>onBlur\<close> (\<open>onChange\<close>) that is given is called
  exactly once when \<open>onUpdate\<close> (\<open>onChangeValue\<close>) is absent or returns, and not at
  all when it raises.
\<close>

theorem caller_handlers_once_in_order:
  "emitted w (final (Input h nav props (Click e) w)) =
     (if isFirefoxBrowser nav then [SetTimeout 0] else [])
     @ (case onClick props of None \<Rightarrow> [] | Some f \<Rightarrow> [CallOnClick e])
   \<and> emitted w (final (Input h nav props (KeyUp k) w)) =
     (case onKeyUp props of None \<Rightarrow> [] | Some f \<Rightarrow> [CallOnKeyUp k])
     @ (if (case onKeyUp props of None \<Rightarrow> False | Some f \<Rightarrow> raised (f k (input w)))
        then []
        else (if key k = ''Enter'' \<and> onEnter props \<noteq> None
              then [CallOnEnter (el_value (case onKeyUp props of None \<Rightarrow> input w
                                           | Some f \<Rightarrow> final (f k (input w)))) k]
              else [])
           @ (if key k = ''Escape'' \<and> onEscape props \<noteq> None
              then [CallOnEscape (el_value (case onKeyUp props of None \<Rightarrow> input w
                                            | Some f \<Rightarrow> final (f k (input w)))) k]
              else []))
   \<and> emitted w (final (Input h nav props Blur w)) =
     (case onUpdate props of None \<Rightarrow> [] | Some f \<Rightarrow> [CallOnUpdate (el_value (input w))])
     @ (if (case onUpdate props of None \<Rightarrow> False
            | Some f \<Rightarrow> raised (f (el_value (input w)) (input w)))
        then []
        else (case onBlur props of None \<Rightarrow> [] | Some f \<Rightarrow> [CallOnBlur]))
   \<and> emitted w (final (Input h nav props Change w)) =
     (case onChangeValue props of None \<Rightarrow> []
      | Some f \<Rightarrow> [CallOnChangeValue (el_value (input w))])
     @ (if (case onChangeValue props of None \<Rightarrow> False
            | Some f \<Rightarrow> raised (f (el_value (input w)) (input w)))
        then []
        else (case onChange props of None \<Rightarrow> [] | Some f \<Rightarrow> [CallOnChange]))
   \<and> count_list (emitted w (final (Input h nav props (Click e) w))) (CallOnClick e)
       = (if onClick props = None then 0 else 1)
   \<and> count_list (emitted w (final (Input h nav props (KeyUp k) w))) (CallOnKeyUp k)
       = (if onKeyUp props = None then 0 else 1)
   \<and> count_list (emitted w (final (Input h nav props Blur w))) CallOnBlur
       = (if onBlur props = None
             \<or> (case onUpdate props of None \<Rightarrow> False
                 | Some f \<Rightarrow> raised (f (el_value (input w)) (input w)))
          then 0 else 1)
   \<and> count_list (emitted w (final (Input h nav props Change w))) CallOnChange
       = (if onChange props = None
             \<or> (case onChangeValue props of None \<Rightarrow> False
                 | Some f \<Rightarrow> raised (f (el_value (input w)) (input w)))
          then 0 else 1)
   \<and> ((\<exists>f. onKeyUp props = Some f \<and> \<not> raised (f k (input w)))
        \<and> onEnter props \<noteq> None \<and> key k = ''Enter'' \<longrightarrow>
        (\<exists>v. before (CallOnKeyUp k) (CallOnEnter v k)
               (emitted w (final (Input h nav props (KeyUp k) w)))))
   \<and> ((\<exists>f. onKeyUp props = Some f \<and> \<not> raised (f k (input w)))
        \<and> onEscape props \<noteq> None \<and> key k = ''Escape'' \<longrightarrow>
        (\<exists>v. before (CallOnKeyUp k) (CallOnEscape v k)
               (emitted w (final (Input h nav props (KeyUp k) w)))))
   \<and> ((\<exists>f. onUpdate props = Some f \<and> \<not> raised (f (el_value (input w)) (input w)))
        \<and> onBlur props \<noteq> None \<longrightarrow>
        before (CallOnUpdate (el_value (input w))) CallOnBlur
          (emitted w (final (Input h nav props Blur w))))
   \<and> ((\<exists>f. onChangeValue props = Some f \<and> \<not> raised (f (el_value (input w)) (input w)))
        \<and> onChange props \<noteq> None \<longrightarrow>
        before (CallOnChangeValue (el_value (input w))) CallOnChange
          (emitted w (final (Input h nav props Change w))))
   \<and> (isFirefoxBrowser nav \<and> onClick props \<noteq> None \<longrightarrow>
        before (SetTimeout 0) (CallOnClick e)
          (emitted w (final (Input h nav props (Click e) w))))"
proof -
  have c1: "count_list (emitted w (final (Input h nav props (Click e) w))) (CallOnClick e)
       = (if onClick props = None then 0 else 1)"
    by (simp add: emitted_Click split: option.split)
  have c2: "count_list (emitted w (final (Input h nav props (KeyUp k) w))) (CallOnKeyUp k)
       = (if onKeyUp props = None then 0 else 1)"
    by (simp add: emitted_KeyUp split: option.split)
  have c3: "count_list (emitted w (final (Input h nav props Blur w))) CallOnBlur
       = (if onBlur props = None
             \<or> (case onUpdate props of None \<Rightarrow> False
                 | Some f \<Rightarrow> raised (f (el_value (input w)) (input w)))
          then 0 else 1)"
    by (simp add: emitted_Blur split: option.split)
  have c4: "count_list (emitted w (final (Input h nav props Change w))) CallOnChange
       = (if onChange props = None
             \<or> (case onChangeValue props of None \<Rightarrow> False
                 | Some f \<Rightarrow> raised (f (el_value (input w)) (input w)))
          then 0 else 1)"
    by (simp add: emitted_Change split: option.split)
  have b1: "(\<exists>f. onKeyUp props = Some f \<and> \<not> raised (f k (input w)))
        \<and> onEnter props \<noteq> None \<and> key k = ''Enter'' \<longrightarrow>
        (\<exists>v. before (CallOnKeyUp k) (CallOnEnter v k)
               (emitted w (final (Input h nav props (KeyUp k) w))))"
    by (simp add: emitted_KeyUp split: option.split)
  have b2: "(\<exists>f. onKeyUp props = Some f \<and> \<not> raised (f k (input w)))
        \<and> onEscape props \<noteq> None \<and> key k = ''Escape'' \<longrightarrow>
        (\<exists>v. before (CallOnKeyUp k) (CallOnEscape v k)
               (emitted w (final (Input h nav props (KeyUp k) w))))"
    by (simp add: emitted_KeyUp split: option.split)
  have b3: "(\<exists>f. onUpdate props = Some f \<and> \<not> raised (f (el_value (input w)) (input w)))
        \<and> onBlur props \<noteq> None \<longrightarrow>
        before (CallOnUpdate (el_value (input w))) CallOnBlur
          (emitted w (final (Input h nav props Blur w)))"
    by (auto simp add: emitted_Blur)
  have b4: "(\<exists>f. onChangeValue props = Some f \<and> \<not> raised (f (el_value (input w)) (input w)))
        \<and> onChange props \<noteq> None \<longrightarrow>
        before (CallOnChangeValue (el_value (input w))) CallOnChange
          (emitted w (final (Input h nav props Change w)))"
    by (auto simp add: emitted_Change)
  have b5: "isFirefoxBrowser nav \<and> onClick props \<noteq> None \<longrightarrow>
        before (SetTimeout 0) (CallOnClick e)
          (emitted w (final (Input h nav props (Click e) w)))"
    by (cases "onClick props") (simp_all add: emitted_Click)
  show ?thesis
    by (intro conjI emitted_Click emitted_KeyUp emitted_Blur emitted_Change
          c1 c2 c3 c4 b1 b2 b3 b4 b5)
qed

theorem caller_handlers_once_in_order_witness:
  "isFirefoxBrowser (Some firefoxNavigator) \<and> onClick sampleProps \<noteq> None
   \<and> onKeyUp sampleProps \<noteq> None \<and> onEnter sampleProps \<noteq> None \<and> key enterKey = ''Enter''
   \<and> onUpdate sampleProps \<noteq> None \<and> onBlur sampleProps \<noteq> None
   \<and> onChangeValue sampleProps \<noteq> None \<and> onChange sampleProps \<noteq> None
   \<and> emitted (sampleWorld ''text'')
        (final (Input sampleHost (Some firefoxNavigator) sampleProps (Click sampleClick)
           (sampleWorld ''text'')))
       = [SetTimeout 0, CallOnClick sampleClick]
   \<and> emitted (sampleWorld ''text'')
        (final (Input sampleHost (Some firefoxNavigator) sampleProps (KeyUp enterKey)
           (sampleWorld ''text'')))
       = [CallOnKeyUp enterKey, CallOnEnter ''hello world!'' enterKey]
   \<and> emitted (sampleWorld ''text'')
        (final (Input sampleHost (Some firefoxNavigator) sampleProps Blur (sampleWorld ''text'')))
       = [CallOnUpdate ''hello world'', CallOnBlur]
   \<and> emitted (sampleWorld ''text'')
        (final (Input sampleHost (Some firefoxNavigator) sampleProps Change
           (sampleWorld ''text'')))
       = [CallOnChangeValue ''hello world'', CallOnChange]
   \<and> before (SetTimeout 0) (CallOnClick sampleClick)
        (emitted (sampleWorld ''text'')
           (final (Input sampleHost (Some firefoxNavigator) sampleProps (Click sampleClick)
              (sampleWorld ''text''))))
   \<and> before (CallOnUpdate ''hello world'') CallOnBlur
        (emitted (sampleWorld ''text'')
           (final (Input sampleHost (Some firefoxNavigator) sampleProps Blur
              (sampleWorld ''text''))))
   \<and> (\<exists>v. before (CallOnKeyUp enterKey) (CallOnEnter v enterKey)
        (emitted (sampleWorld ''text'')
           (final (Input sampleHost (Some firefoxNavigator) sampleProps (KeyUp enterKey)
              (sampleWorld ''text'')))))"
proof -
  have f: "isFirefoxBrowser (Some firefoxNavigator)"
    by (rule isFirefoxBrowser_firefoxNavigator)
  have p: "onClick sampleProps \<noteq> None" "onKeyUp sampleProps \<noteq> None"
    "onEnter sampleProps \<noteq> None" "key enterKey = ''Enter''"
    "onUpdate sampleProps \<noteq> None" "onBlur sampleProps \<noteq> None"
    "onChangeValue sampleProps \<noteq> None" "onChange sampleProps \<noteq> None"
    by (simp_all add: sampleProps_def enterKey_def)
  show ?thesis
    using caller_handlers_once_in_order [where w = "sampleWorld ''text''" and h = sampleHost
          and nav = "Some firefoxNavigator" and props = sampleProps and e = sampleClick
          and k = enterKey] f p
    by (simp add: sampleProps_def sampleWorld_def sampleElement_def)
qed

end
